theory Spec2Isabelle
  imports Complex_Main
begin

section \<open>The reduction script \<open>process_leowasp.py\<close>\<close>

text \<open>
  The script is one \<open>__main__\<close> block that drives external collaborators (the
  \<open>jastro\<close> routines, the \<open>Donuts\<close> aligner, \<open>os\<close>, \<open>time\<close>). The embedding
  keeps the script's own control flow and takes every collaborator as a parameter: a
  field of the record \<open>jastro\<close> gives the value a call returns, as a function of the
  arguments of the call, and the run yields the ordered list of the calls it makes, each
  with the arguments the script passes.

  Three things are outside the embedding. An exception raised inside a collaborator ends
  the script (it has no \<open>try\<close>): the definitions describe the runs in which every call
  returns. A configuration holds every key the script reads; a missing key would raise
  \<open>KeyError\<close>. Shift components and thresholds are Python floats; they are taken as exact
  rationals, so \<open>round(v, 2)\<close> is decimal rounding (ties to even) of the exact value,
  without the binary representation error of a float and without NaN or infinities.
\<close>

subsection \<open>Configuration\<close>

text \<open>The keys of the night configuration that the script reads.\<close>

record night_config =
  nc_ds9 :: bool
  nc_region_file :: string
  nc_defocused :: bool
  nc_reference_image :: string
  nc_max_sep_shift :: rat
  nc_max_donuts_shift :: rat
  nc_filter :: string
  nc_aperture_radii :: "rat list"
  nc_master_dark_filename :: string
  nc_master_flat_filename :: string

text \<open>
  The keys of the instrument configuration that the script reads; the nested sections
  \<open>ds9\<close>, \<open>observatory\<close>, \<open>sky\<close> and \<open>imager\<close> are flattened.
\<close>

record inst_config =
  ic_ds9_window_id :: string
  ic_ds9_index_offset :: int
  ic_olat :: rat
  ic_olon :: rat
  ic_elev :: rat
  ic_background_sigma :: rat
  ic_overscan_keyword :: string
  ic_dark_keyword :: string
  ic_flat_keyword :: string
  ic_exptime_keyword :: string
  ic_image_keyword :: string
  ic_ra_keyword :: string
  ic_dec_keyword :: string
  ic_dateobs_start_keyword :: string

subsection \<open>Values passed between the collaborators\<close>

text \<open>\<open>EarthLocation(lat=..., lon=..., height=...)\<close>: a value built from three keys of the
  instrument configuration, without a call to a collaborator.\<close>

record location =
  loc_lat :: rat
  loc_lon :: rat
  loc_height :: rat

text \<open>The object \<open>measure_shift\<close> returns: \<open>shift.x.value\<close> and \<open>shift.y.value\<close>.\<close>

record shift =
  sh_x :: rat
  sh_y :: rat

text \<open>
  The arguments of the three calibration and correction routines and of
  \<open>j.photometry.phot\<close>, one field per argument, in the order of the call. The types
  \<open>'img\<close> (the image collection), \<open>'m\<close> (a master frame), \<open>'e\<close> (the dark exposure
  time), \<open>'d\<close> (corrected pixel data) and \<open>'t\<close> (a time stamp) are opaque to the
  script. An absent master frame is Python's \<open>None\<close>: the value \<open>None\<close> of \<open>'m option\<close>.
\<close>

record 'img dark_call =
  dk_images :: 'img
  dk_overscan_keyword :: string
  dk_dark_keyword :: string
  dk_exptime_keyword :: string
  dk_master_dark_filename :: string

record ('img, 'm, 'e) flat_call =
  fl_images :: 'img
  fl_filter :: string
  fl_overscan_keyword :: string
  fl_master_dark :: "'m option"
  fl_dark_exp :: 'e
  fl_flat_keyword :: string
  fl_exptime_keyword :: string
  fl_master_flat_filename :: string

record ('m, 'e) correct_call =
  cr_filename :: string
  cr_filter :: string
  cr_location :: location
  cr_master_dark :: "'m option"
  cr_overscan_keyword :: string
  cr_master_flat :: "'m option"
  cr_dark_exp :: 'e
  cr_exptime_keyword :: string
  cr_ra_keyword :: string
  cr_dec_keyword :: string
  cr_dateobs_start_keyword :: string

record ('d, 't) phot_call =
  ph_data :: 'd
  ph_shift :: shift
  ph_x :: "rat list"
  ph_y :: "rat list"
  ph_rsi :: "rat list"
  ph_rso :: "rat list"
  ph_aperture_radii :: "rat list"
  ph_filename :: string
  ph_jd :: 't
  ph_bjd :: 't
  ph_hjd :: 't
  ph_ds9_name :: "string option"
  ph_gain :: rat
  ph_draw_regions :: bool
  ph_index_offset :: int

subsection \<open>The collaborators and the calls made to them\<close>

text \<open>
  What each collaborator returns. \<open>source_extract\<close> gives the second and third
  components of the tuple the routine returns, the only ones the script keeps;
  \<open>measure_shift\<close> takes the reference image the \<open>Donuts\<close> object was built from and the
  file name it is called with.
\<close>

record ('img, 'm, 'e, 'd, 't) jastro =
  read_region_file :: "string \<Rightarrow> rat list \<times> rat list \<times> rat list \<times> rat list"
  source_extract :: "string \<Rightarrow> rat \<Rightarrow> rat list \<Rightarrow> rat list \<Rightarrow> rat list \<times> rat list"
  recenter_stars ::
    "rat list \<Rightarrow> rat list \<Rightarrow> rat list \<Rightarrow> rat list \<Rightarrow> rat \<Rightarrow> rat list \<times> rat list"
  get_image_list :: 'img
  make_master_dark_osc :: "'img dark_call \<Rightarrow> 'm option \<times> 'e"
  make_master_flat_osc :: "('img, 'm, 'e) flat_call \<Rightarrow> 'm option"
  files_filtered :: "'img \<Rightarrow> string \<Rightarrow> string \<Rightarrow> string list"
  correct_data_osc :: "('m, 'e) correct_call \<Rightarrow> 'd \<times> 't \<times> 't \<times> 't"
  measure_shift :: "string \<Rightarrow> string \<Rightarrow> shift"

text \<open>
  One constructor per call the script makes, in the order of the source. The two
  \<open>print\<close> calls of the rejection branch carry the values they format; the elapsed time
  printed after photometry carries none (the clock is not part of the embedding).
\<close>

datatype ('img, 'm, 'e, 'd, 't) event =
    Ds9_setup string
  | Read_region_file string
  | Source_extract string rat "rat list" "rat list"
  | Recenter_stars "rat list" "rat list" "rat list" "rat list" rat
  | Donuts_init string
  | Get_image_list
  | Make_master_dark_osc "'img dark_call"
  | Make_master_flat_osc "('img, 'm, 'e) flat_call"
  | Ds9_display "string option" string
  | Time_sleep nat
  | Files_filtered 'img string string
  | Correct_data_osc "('m, 'e) correct_call"
  | Measure_shift string
  | Print_shift_too_big string rat rat
  | Os_path_exists string
  | Os_mkdir string
  | Print_comm string
  | Os_system string
  | Phot "('d, 't) phot_call"
  | Print_elapsed

subsection \<open>The quality gate (lines 139 to 143)\<close>

text \<open>Rounding to the nearest integer, a tie going to the even neighbour.\<close>

definition round_half_even :: "rat \<Rightarrow> int" where
  "round_half_even q =
     (let f = \<lfloor>q\<rfloor>; d = q - of_int f in
      if d < 1 / 2 then f
      else if 1 / 2 < d then f + 1
      else if even f then f else f + 1)"

text \<open>Python's \<open>round(v, ndigits)\<close> for \<open>ndigits \<ge> 0\<close>.\<close>

definition py_round :: "rat \<Rightarrow> nat \<Rightarrow> rat" where
  "py_round v ndigits = of_int (round_half_even (v * 10 ^ ndigits)) / 10 ^ ndigits"

text \<open>\<open>array > v\<close> compares each element; \<open>np.sum\<close> of a boolean array counts the true ones.\<close>

definition np_greater :: "rat list \<Rightarrow> rat \<Rightarrow> bool list" where
  "np_greater a v = map (\<lambda>s. v < s) a"

definition np_sum :: "bool list \<Rightarrow> nat" where
  "np_sum bs = length (filter (\<lambda>b. b) bs)"

text \<open>
  The condition of the \<open>if\<close> at line 143, on the rounded components:
  \<^verbatim>\<open>
  shifts = np.array([abs(sx), abs(sy)])
  if np.sum(shifts > night_config['max_donuts_shift']) > 0:
  \<close>
\<close>

definition shifts_too_big :: "night_config \<Rightarrow> rat \<Rightarrow> rat \<Rightarrow> bool" where
  "shifts_too_big nc sx sy =
     (let shifts = [\<bar>sx\<bar>, \<bar>sy\<bar>]
      in 0 < np_sum (np_greater shifts (nc_max_donuts_shift nc)))"

text \<open>
  The decision as a function of the measured shift: lines 139 and 140 round each
  component, line 143 tests the rounded values.
\<close>

definition gate_rejects :: "night_config \<Rightarrow> shift \<Rightarrow> bool" where
  "gate_rejects nc s = shifts_too_big nc (py_round (sh_x s) 2) (py_round (sh_y s) 2)"

subsection \<open>The script's variables when the loop over the frames starts\<close>

text \<open>
  \<open>v_d\<close> is the \<open>Donuts\<close> object, identified by the reference image it was built from;
  \<open>v_x\<close>, \<open>v_y\<close>, \<open>v_rsi\<close>, \<open>v_rso\<close> are the aperture positions and sky radii.
\<close>

record ('img, 'm, 'e) script_vars =
  v_ds9 :: bool
  v_ds9_window_id :: "string option"
  v_draw_regions :: bool
  v_location :: location
  v_x :: "rat list"
  v_y :: "rat list"
  v_rsi :: "rat list"
  v_rso :: "rat list"
  v_d :: string
  v_images :: 'img
  v_master_dark :: "'m option"
  v_dark_exp :: 'e
  v_master_flat :: "'m option"

subsection \<open>Set-up (lines 61 to 119)\<close>

text \<open>Lines 62 to 69: the window id and \<open>draw_regions\<close>.\<close>

definition setup_ds9 ::
  "night_config \<Rightarrow> inst_config \<Rightarrow> ('img, 'm, 'e, 'd, 't) event list \<times> string option \<times> bool"
where
  "setup_ds9 nc ic =
     (if nc_ds9 nc
      then ([Ds9_setup (ic_ds9_window_id ic)], Some (ic_ds9_window_id ic), True)
      else ([], None, False))"

text \<open>Lines 77 to 84: the apertures, recentred unless the run is defocused.\<close>

definition setup_apertures ::
  "('img, 'm, 'e, 'd, 't) jastro \<Rightarrow> night_config \<Rightarrow> inst_config \<Rightarrow>
   ('img, 'm, 'e, 'd, 't) event list \<times> rat list \<times> rat list \<times> rat list \<times> rat list"
where
  "setup_apertures J nc ic =
     (let (x, y, rsi, rso) = read_region_file J (nc_region_file nc);
          ev = [Read_region_file (nc_region_file nc)]
      in if \<not> nc_defocused nc
         then
           (let (source_x, source_y) =
                  source_extract J (nc_reference_image nc) (ic_background_sigma ic) rsi rso;
                (x', y') = recenter_stars J x y source_x source_y (nc_max_sep_shift nc)
            in (ev @ [Source_extract (nc_reference_image nc) (ic_background_sigma ic) rsi rso,
                      Recenter_stars x y source_x source_y (nc_max_sep_shift nc)],
                x', y', rsi, rso))
         else (ev, x, y, rsi, rso))"

text \<open>The arguments of the calls at lines 101 and 111.\<close>

definition dark_args :: "night_config \<Rightarrow> inst_config \<Rightarrow> 'img \<Rightarrow> 'img dark_call" where
  "dark_args nc ic images =
     \<lparr>dk_images = images,
      dk_overscan_keyword = ic_overscan_keyword ic,
      dk_dark_keyword = ic_dark_keyword ic,
      dk_exptime_keyword = ic_exptime_keyword ic,
      dk_master_dark_filename = nc_master_dark_filename nc\<rparr>"

definition flat_args ::
  "night_config \<Rightarrow> inst_config \<Rightarrow> 'img \<Rightarrow> 'm option \<Rightarrow> 'e \<Rightarrow> ('img, 'm, 'e) flat_call"
where
  "flat_args nc ic images master_dark dark_exp =
     \<lparr>fl_images = images,
      fl_filter = nc_filter nc,
      fl_overscan_keyword = ic_overscan_keyword ic,
      fl_master_dark = master_dark,
      fl_dark_exp = dark_exp,
      fl_flat_keyword = ic_flat_keyword ic,
      fl_exptime_keyword = ic_exptime_keyword ic,
      fl_master_flat_filename = nc_master_flat_filename nc\<rparr>"

text \<open>Lines 101 to 119: the master dark, then the master flat, each shown when it exists
  and the display is on.\<close>

definition make_masters ::
  "('img, 'm, 'e, 'd, 't) jastro \<Rightarrow> night_config \<Rightarrow> inst_config \<Rightarrow> bool \<Rightarrow> string option \<Rightarrow>
   'img \<Rightarrow> ('img, 'm, 'e, 'd, 't) event list \<times> 'm option \<times> 'e \<times> 'm option"
where
  "make_masters J nc ic ds9 ds9_window_id images =
     (let (master_dark, dark_exp) = make_master_dark_osc J (dark_args nc ic images);
          ev_dark =
            Make_master_dark_osc (dark_args nc ic images) #
            (if master_dark \<noteq> None \<and> ds9
             then [Ds9_display ds9_window_id (nc_master_dark_filename nc), Time_sleep 5]
             else []);
          master_flat = make_master_flat_osc J (flat_args nc ic images master_dark dark_exp);
          ev_flat =
            Make_master_flat_osc (flat_args nc ic images master_dark dark_exp) #
            (if master_flat \<noteq> None \<and> ds9
             then [Ds9_display ds9_window_id (nc_master_flat_filename nc), Time_sleep 5]
             else [])
      in (ev_dark @ ev_flat, master_dark, dark_exp, master_flat))"

text \<open>Lines 61 to 119 in order: the calls made before the loop, and the variables it reads.\<close>

definition startup ::
  "('img, 'm, 'e, 'd, 't) jastro \<Rightarrow> night_config \<Rightarrow> inst_config \<Rightarrow>
   ('img, 'm, 'e, 'd, 't) event list \<times> ('img, 'm, 'e) script_vars"
where
  "startup J nc ic =
     (let ds9 = nc_ds9 nc;
          (ev_ds9, ds9_window_id, draw_regions) = setup_ds9 nc ic;
          location = \<lparr>loc_lat = ic_olat ic, loc_lon = ic_olon ic, loc_height = ic_elev ic\<rparr>;
          (ev_apertures, x, y, rsi, rso) = setup_apertures J nc ic;
          d = nc_reference_image nc;
          images = get_image_list J;
          (ev_masters, master_dark, dark_exp, master_flat) =
            make_masters J nc ic ds9 ds9_window_id images
      in (ev_ds9 @ ev_apertures @ [Donuts_init d, Get_image_list] @ ev_masters,
          \<lparr>v_ds9 = ds9, v_ds9_window_id = ds9_window_id, v_draw_regions = draw_regions,
           v_location = location, v_x = x, v_y = y, v_rsi = rsi, v_rso = rso, v_d = d,
           v_images = images, v_master_dark = master_dark, v_dark_exp = dark_exp,
           v_master_flat = master_flat\<rparr>))"

subsection \<open>One frame (lines 124 to 158)\<close>

text \<open>The arguments of the calls at lines 128 and 153, and the command of line 147.\<close>

definition correct_args ::
  "night_config \<Rightarrow> inst_config \<Rightarrow> ('img, 'm, 'e) script_vars \<Rightarrow> string \<Rightarrow> ('m, 'e) correct_call"
where
  "correct_args nc ic V filename =
     \<lparr>cr_filename = filename,
      cr_filter = nc_filter nc,
      cr_location = v_location V,
      cr_master_dark = v_master_dark V,
      cr_overscan_keyword = ic_overscan_keyword ic,
      cr_master_flat = v_master_flat V,
      cr_dark_exp = v_dark_exp V,
      cr_exptime_keyword = ic_exptime_keyword ic,
      cr_ra_keyword = ic_ra_keyword ic,
      cr_dec_keyword = ic_dec_keyword ic,
      cr_dateobs_start_keyword = ic_dateobs_start_keyword ic\<rparr>"

definition phot_args ::
  "night_config \<Rightarrow> inst_config \<Rightarrow> ('img, 'm, 'e) script_vars \<Rightarrow> string \<Rightarrow>
   'd \<times> 't \<times> 't \<times> 't \<Rightarrow> shift \<Rightarrow> ('d, 't) phot_call"
where
  "phot_args nc ic V filename corrected shift =
     (let (data, jd, bjd, hjd) = corrected
      in \<lparr>ph_data = data,
          ph_shift = shift,
          ph_x = v_x V,
          ph_y = v_y V,
          ph_rsi = v_rsi V,
          ph_rso = v_rso V,
          ph_aperture_radii = nc_aperture_radii nc,
          ph_filename = filename,
          ph_jd = jd,
          ph_bjd = bjd,
          ph_hjd = hjd,
          ph_ds9_name = v_ds9_window_id V,
          ph_gain = 4 / 10,
          ph_draw_regions = v_draw_regions V,
          ph_index_offset = ic_ds9_index_offset ic\<rparr>)"

definition mv_command :: "string \<Rightarrow> string" where
  "mv_command filename = ''mv '' @ filename @ '' failed_donuts/''"

text \<open>
  The body of the loop. \<open>fd\<close> says whether the path \<open>failed_donuts\<close> exists when the
  frame starts; the result says whether it exists when the frame ends (\<open>os.mkdir\<close>
  creates it, and no other call of the script removes it). The \<open>continue\<close> of line 150
  is the first branch, which ends the frame without the call to \<open>phot\<close>.
\<close>

definition process_frame ::
  "('img, 'm, 'e, 'd, 't) jastro \<Rightarrow> night_config \<Rightarrow> inst_config \<Rightarrow> ('img, 'm, 'e) script_vars \<Rightarrow>
   bool \<Rightarrow> string \<Rightarrow> ('img, 'm, 'e, 'd, 't) event list \<times> bool"
where
  "process_frame J nc ic V fd filename =
     (let ev_display = (if v_ds9 V then [Ds9_display (v_ds9_window_id V) filename] else []);
          corrected = correct_data_osc J (correct_args nc ic V filename);
          shift = measure_shift J (v_d V) filename;
          sx = py_round (sh_x shift) 2;
          sy = py_round (sh_y shift) 2;
          ev = ev_display @ [Correct_data_osc (correct_args nc ic V filename),
                             Measure_shift filename]
      in if shifts_too_big nc sx sy
         then
           (ev @ [Print_shift_too_big filename sx sy, Os_path_exists ''failed_donuts''] @
              (if \<not> fd then [Os_mkdir ''failed_donuts''] else []) @
              [Print_comm (mv_command filename), Os_system (mv_command filename)],
            True)
         else
           (ev @ [Phot (phot_args nc ic V filename corrected shift), Print_elapsed], fd))"

subsection \<open>The loop and the whole run\<close>

fun process_frames ::
  "('img, 'm, 'e, 'd, 't) jastro \<Rightarrow> night_config \<Rightarrow> inst_config \<Rightarrow> ('img, 'm, 'e) script_vars \<Rightarrow>
   bool \<Rightarrow> string list \<Rightarrow> ('img, 'm, 'e, 'd, 't) event list \<times> bool"
where
  "process_frames J nc ic V fd [] = ([], fd)"
| "process_frames J nc ic V fd (filename # rest) =
     (let (ev, fd') = process_frame J nc ic V fd filename;
          (evs, fd'') = process_frames J nc ic V fd' rest
      in (ev @ evs, fd''))"

text \<open>The frames the loop visits (lines 122 and 123).\<close>

definition science_files ::
  "('img, 'm, 'e, 'd, 't) jastro \<Rightarrow> night_config \<Rightarrow> inst_config \<Rightarrow> string list"
where
  "science_files J nc ic = files_filtered J (get_image_list J) (ic_image_keyword ic) (nc_filter nc)"

text \<open>
  The run: every call the script makes, in order. \<open>fd\<close> says whether \<open>failed_donuts\<close>
  exists when the script starts.
\<close>

definition main ::
  "('img, 'm, 'e, 'd, 't) jastro \<Rightarrow> night_config \<Rightarrow> inst_config \<Rightarrow> bool \<Rightarrow>
   ('img, 'm, 'e, 'd, 't) event list"
where
  "main J nc ic fd =
     (let (ev_startup, V) = startup J nc ic;
          files = files_filtered J (v_images V) (ic_image_keyword ic) (nc_filter nc)
      in ev_startup @
         [Files_filtered (v_images V) (ic_image_keyword ic) (nc_filter nc)] @
         fst (process_frames J nc ic V fd files))"

subsection \<open>Reading a run\<close>

text \<open>The calls of one kind in a run, in order, each with its arguments.\<close>

fun phot_of :: "('img, 'm, 'e, 'd, 't) event \<Rightarrow> ('d, 't) phot_call list" where
  "phot_of (Phot p) = [p]"
| "phot_of _ = []"

definition phot_calls :: "('img, 'm, 'e, 'd, 't) event list \<Rightarrow> ('d, 't) phot_call list" where
  "phot_calls tr = concat (map phot_of tr)"

fun correct_of :: "('img, 'm, 'e, 'd, 't) event \<Rightarrow> ('m, 'e) correct_call list" where
  "correct_of (Correct_data_osc c) = [c]"
| "correct_of _ = []"

definition correct_calls ::
  "('img, 'm, 'e, 'd, 't) event list \<Rightarrow> ('m, 'e) correct_call list" where
  "correct_calls tr = concat (map correct_of tr)"

fun flat_of :: "('img, 'm, 'e, 'd, 't) event \<Rightarrow> ('img, 'm, 'e) flat_call list" where
  "flat_of (Make_master_flat_osc c) = [c]"
| "flat_of _ = []"

definition flat_calls ::
  "('img, 'm, 'e, 'd, 't) event list \<Rightarrow> ('img, 'm, 'e) flat_call list" where
  "flat_calls tr = concat (map flat_of tr)"

fun measure_of :: "('img, 'm, 'e, 'd, 't) event \<Rightarrow> string list" where
  "measure_of (Measure_shift f) = [f]"
| "measure_of _ = []"

definition measure_calls :: "('img, 'm, 'e, 'd, 't) event list \<Rightarrow> string list" where
  "measure_calls tr = concat (map measure_of tr)"

text \<open>The calls that set the aperture positions: reading the region file, detecting the
  sources, recentring.\<close>

fun aperture_of :: "('img, 'm, 'e, 'd, 't) event \<Rightarrow> ('img, 'm, 'e, 'd, 't) event list" where
  "aperture_of (Read_region_file f) = [Read_region_file f]"
| "aperture_of (Source_extract r b ri ro) = [Source_extract r b ri ro]"
| "aperture_of (Recenter_stars x y sx sy m) = [Recenter_stars x y sx sy m]"
| "aperture_of _ = []"

definition aperture_calls ::
  "('img, 'm, 'e, 'd, 't) event list \<Rightarrow> ('img, 'm, 'e, 'd, 't) event list" where
  "aperture_calls tr = concat (map aperture_of tr)"

fun is_read_region :: "('img, 'm, 'e, 'd, 't) event \<Rightarrow> bool" where
  "is_read_region (Read_region_file f) = True"
| "is_read_region _ = False"

fun is_recenter :: "('img, 'm, 'e, 'd, 't) event \<Rightarrow> bool" where
  "is_recenter (Recenter_stars x y sx sy m) = True"
| "is_recenter _ = False"

text \<open>The calls that change the file system: \<open>os.mkdir\<close> and \<open>os.system\<close>.\<close>

fun fs_of :: "('img, 'm, 'e, 'd, 't) event \<Rightarrow> ('img, 'm, 'e, 'd, 't) event list" where
  "fs_of (Os_mkdir p) = [Os_mkdir p]"
| "fs_of (Os_system c) = [Os_system c]"
| "fs_of _ = []"

definition fs_calls ::
  "('img, 'm, 'e, 'd, 't) event list \<Rightarrow> ('img, 'm, 'e, 'd, 't) event list" where
  "fs_calls tr = concat (map fs_of tr)"

text \<open>
  A run with the display left out: the calls to the display sink and the settle delay
  are dropped, and the two arguments of \<open>phot\<close> that only serve the display
  (\<open>ds9_name\<close>, \<open>draw_regions\<close>) are set to the values they have when the sink is off.
\<close>

fun hide_display :: "('img, 'm, 'e, 'd, 't) event \<Rightarrow> ('img, 'm, 'e, 'd, 't) event list" where
  "hide_display (Ds9_setup w) = []"
| "hide_display (Ds9_display w f) = []"
| "hide_display (Time_sleep n) = []"
| "hide_display (Phot p) = [Phot (p\<lparr>ph_ds9_name := None, ph_draw_regions := False\<rparr>)]"
| "hide_display e = [e]"

definition without_display ::
  "('img, 'm, 'e, 'd, 't) event list \<Rightarrow> ('img, 'm, 'e, 'd, 't) event list" where
  "without_display tr = concat (map hide_display tr)"

text \<open>The aperture positions and sky radii the loop starts with.\<close>

definition apertures ::
  "('img, 'm, 'e) script_vars \<Rightarrow> rat list \<times> rat list \<times> rat list \<times> rat list" where
  "apertures V = (v_x V, v_y V, v_rsi V, v_rso V)"

definition phot_apertures ::
  "('d, 't) phot_call \<Rightarrow> rat list \<times> rat list \<times> rat list \<times> rat list" where
  "phot_apertures p = (ph_x p, ph_y p, ph_rsi p, ph_rso p)"

text \<open>What a call to \<open>phot\<close> computes from: the pixel data, the shift, the apertures and
  the three time stamps.\<close>

definition phot_outcome ::
  "('d, 't) phot_call \<Rightarrow>
   'd \<times> shift \<times> (rat list \<times> rat list \<times> rat list \<times> rat list) \<times> 't \<times> 't \<times> 't"
where
  "phot_outcome p = (ph_data p, ph_shift p, phot_apertures p, ph_jd p, ph_bjd p, ph_hjd p)"

text \<open>The variables of a run whose display is off: lines 68 and 69.\<close>

definition display_off :: "('img, 'm, 'e) script_vars \<Rightarrow> ('img, 'm, 'e) script_vars" where
  "display_off V = V\<lparr>v_ds9 := False, v_ds9_window_id := None, v_draw_regions := False\<rparr>"

text \<open>The frames of the loop that the gate rejects, and those it accepts.\<close>

definition rejected_files ::
  "('img, 'm, 'e, 'd, 't) jastro \<Rightarrow> night_config \<Rightarrow> inst_config \<Rightarrow> string list" where
  "rejected_files J nc ic =
     filter (\<lambda>f. gate_rejects nc (measure_shift J (nc_reference_image nc) f))
       (science_files J nc ic)"

definition accepted_files ::
  "('img, 'm, 'e, 'd, 't) jastro \<Rightarrow> night_config \<Rightarrow> inst_config \<Rightarrow> string list" where
  "accepted_files J nc ic =
     filter (\<lambda>f. \<not> gate_rejects nc (measure_shift J (nc_reference_image nc) f))
       (science_files J nc ic)"

text \<open>What the two construction calls of a run return.\<close>

definition built_dark ::
  "('img, 'm, 'e, 'd, 't) jastro \<Rightarrow> night_config \<Rightarrow> inst_config \<Rightarrow> 'm option \<times> 'e" where
  "built_dark J nc ic = make_master_dark_osc J (dark_args nc ic (get_image_list J))"

definition built_flat ::
  "('img, 'm, 'e, 'd, 't) jastro \<Rightarrow> night_config \<Rightarrow> inst_config \<Rightarrow> 'm option" where
  "built_flat J nc ic =
     make_master_flat_osc J
       (flat_args nc ic (get_image_list J) (fst (built_dark J nc ic)) (snd (built_dark J nc ic)))"

subsection \<open>A concrete night\<close>

text \<open>
  Two apertures at (100, 100) and (200, 200) with sky radii 5 and 10, a tolerance of one
  pixel, and three frames whose shifts are (0.03, 1.2), (0.5, 0.9) and (1.004, 0). No
  dark and no flat frame is found, so both masters are absent.
\<close>

definition demo_night :: night_config where
  "demo_night =
     \<lparr>nc_ds9 = True, nc_region_file = ''ref.reg'', nc_defocused = True,
      nc_reference_image = ''ref.fits'', nc_max_sep_shift = 3, nc_max_donuts_shift = 1,
      nc_filter = ''V'', nc_aperture_radii = [4, 6],
      nc_master_dark_filename = ''dark.fits'', nc_master_flat_filename = ''flat.fits''\<rparr>"

definition demo_inst :: inst_config where
  "demo_inst =
     \<lparr>ic_ds9_window_id = ''w'', ic_ds9_index_offset = 1,
      ic_olat = 28, ic_olon = - 17, ic_elev = 2300, ic_background_sigma = 3,
      ic_overscan_keyword = ''OSC'', ic_dark_keyword = ''DARK'', ic_flat_keyword = ''FLAT'',
      ic_exptime_keyword = ''EXPTIME'', ic_image_keyword = ''SCI'', ic_ra_keyword = ''RA'',
      ic_dec_keyword = ''DEC'', ic_dateobs_start_keyword = ''DATE''\<rparr>"

definition demo_shift :: "string \<Rightarrow> shift" where
  "demo_shift f =
     (if f = ''a'' then \<lparr>sh_x = 3 / 100, sh_y = 12 / 10\<rparr>
      else if f = ''b'' then \<lparr>sh_x = 5 / 10, sh_y = 9 / 10\<rparr>
      else \<lparr>sh_x = 1004 / 1000, sh_y = 0\<rparr>)"

definition demo_jastro :: "(string list, nat, nat, string, nat) jastro" where
  "demo_jastro =
     \<lparr>read_region_file = (\<lambda>f. ([100, 200], [100, 200], [5, 5], [10, 10])),
      source_extract = (\<lambda>r b ri ro. ([101, 199], [99, 201])),
      recenter_stars = (\<lambda>x y sx sy m. (sx, sy)),
      get_image_list = [''a'', ''b'', ''c''],
      make_master_dark_osc = (\<lambda>c. (None, 0)),
      make_master_flat_osc = (\<lambda>c. None),
      files_filtered = (\<lambda>images k f. images),
      correct_data_osc = (\<lambda>c. (cr_filename c, 1, 2, 3)),
      measure_shift = (\<lambda>r f. demo_shift f)\<rparr>"

section \<open>Properties of the run\<close>

subsection \<open>The gate and the rounding\<close>





text \<open>Evaluating the rounding of a decimal literal.\<close>

lemma floor_rat_numeral:
  "\<lfloor>numeral a / numeral b :: rat\<rfloor> = numeral a div numeral b"
  using floor_divide_of_int_eq [of "numeral a" "numeral b", where ?'a = rat] by simp

lemma floor_rat_minus_numeral:
  "\<lfloor>- (numeral a / numeral b) :: rat\<rfloor> = - numeral a div numeral b"
  using floor_divide_of_int_eq [of "- numeral a" "numeral b", where ?'a = rat] by simp

lemmas py_round_eval =
  py_round_def round_half_even_def Let_def floor_rat_numeral floor_rat_minus_numeral

lemmas demo_eval =
  demo_night_def demo_inst_def demo_jastro_def demo_shift_def gate_rejects_def
  shifts_too_big_def np_greater_def np_sum_def py_round_eval

subsection \<open>The calls of one kind in a list of calls\<close>

lemma calls_append:
  "phot_calls (a @ b) = phot_calls a @ phot_calls b"
  "correct_calls (a @ b) = correct_calls a @ correct_calls b"
  "measure_calls (a @ b) = measure_calls a @ measure_calls b"
  "flat_calls (a @ b) = flat_calls a @ flat_calls b"
  "aperture_calls (a @ b) = aperture_calls a @ aperture_calls b"
  "fs_calls (a @ b) = fs_calls a @ fs_calls b"
  "without_display (a @ b) = without_display a @ without_display b"
  by (simp_all add: phot_calls_def correct_calls_def measure_calls_def flat_calls_def
      aperture_calls_def fs_calls_def without_display_def)

lemma calls_Cons:
  "phot_calls (e # a) = phot_of e @ phot_calls a"
  "correct_calls (e # a) = correct_of e @ correct_calls a"
  "measure_calls (e # a) = measure_of e @ measure_calls a"
  "flat_calls (e # a) = flat_of e @ flat_calls a"
  "aperture_calls (e # a) = aperture_of e @ aperture_calls a"
  "fs_calls (e # a) = fs_of e @ fs_calls a"
  "without_display (e # a) = hide_display e @ without_display a"
  by (simp_all add: phot_calls_def correct_calls_def measure_calls_def flat_calls_def
      aperture_calls_def fs_calls_def without_display_def)

lemma calls_Nil:
  "phot_calls [] = []" "correct_calls [] = []" "measure_calls [] = []" "flat_calls [] = []"
  "aperture_calls [] = []" "fs_calls [] = []" "without_display [] = []"
  by (simp_all add: phot_calls_def correct_calls_def measure_calls_def flat_calls_def
      aperture_calls_def fs_calls_def without_display_def)

lemmas calls_simps = calls_append calls_Cons calls_Nil

subsection \<open>The calls of the set-up\<close>

lemma startup_vars:
  "snd (startup J nc ic) =
     \<lparr>v_ds9 = nc_ds9 nc,
      v_ds9_window_id = (if nc_ds9 nc then Some (ic_ds9_window_id ic) else None),
      v_draw_regions = nc_ds9 nc,
      v_location = \<lparr>loc_lat = ic_olat ic, loc_lon = ic_olon ic, loc_height = ic_elev ic\<rparr>,
      v_x = fst (snd (setup_apertures J nc ic)),
      v_y = fst (snd (snd (setup_apertures J nc ic))),
      v_rsi = fst (snd (snd (snd (setup_apertures J nc ic)))),
      v_rso = snd (snd (snd (snd (setup_apertures J nc ic)))),
      v_d = nc_reference_image nc,
      v_images = get_image_list J,
      v_master_dark = fst (built_dark J nc ic),
      v_dark_exp = snd (built_dark J nc ic),
      v_master_flat = built_flat J nc ic\<rparr>"
  by (simp add: startup_def setup_ds9_def make_masters_def built_dark_def built_flat_def
      Let_def split: prod.splits)

lemma startup_events:
  "fst (startup J nc ic) =
     fst (setup_ds9 nc ic) @ fst (setup_apertures J nc ic) @
     [Donuts_init (nc_reference_image nc), Get_image_list] @
     fst (make_masters J nc ic (nc_ds9 nc) (if nc_ds9 nc then Some (ic_ds9_window_id ic) else None)
            (get_image_list J))"
  by (simp add: startup_def setup_ds9_def Let_def split: prod.splits)

lemma startup_images: "v_images (snd (startup J nc ic)) = get_image_list J"
  by (simp add: startup_vars)

lemma main_eq:
  "main J nc ic fd =
     fst (startup J nc ic) @
     [Files_filtered (get_image_list J) (ic_image_keyword ic) (nc_filter nc)] @
     fst (process_frames J nc ic (snd (startup J nc ic)) fd (science_files J nc ic))"
proof -
  obtain ev V where s: "startup J nc ic = (ev, V)"
    by (cases "startup J nc ic")
  have "v_images V = get_image_list J"
    using startup_images [of J nc ic] s by simp
  then show ?thesis
    by (simp add: main_def s science_files_def)
qed

lemma startup_d: "v_d (snd (startup J nc ic)) = nc_reference_image nc"
  by (simp add: startup_vars)

lemma setup_ds9_quiet:
  "phot_calls (fst (setup_ds9 nc ic)) = []"
  "correct_calls (fst (setup_ds9 nc ic)) = []"
  "measure_calls (fst (setup_ds9 nc ic)) = []"
  "flat_calls (fst (setup_ds9 nc ic)) = []"
  "aperture_calls (fst (setup_ds9 nc ic)) = []"
  "fs_calls (fst (setup_ds9 nc ic)) = []"
  by (simp_all add: setup_ds9_def calls_simps)

lemma setup_apertures_quiet:
  "phot_calls (fst (setup_apertures J nc ic)) = []"
  "correct_calls (fst (setup_apertures J nc ic)) = []"
  "measure_calls (fst (setup_apertures J nc ic)) = []"
  "flat_calls (fst (setup_apertures J nc ic)) = []"
  "fs_calls (fst (setup_apertures J nc ic)) = []"
  by (simp_all add: setup_apertures_def calls_simps Let_def split: prod.splits)

lemma setup_apertures_all:
  "aperture_calls (fst (setup_apertures J nc ic)) = fst (setup_apertures J nc ic)"
  by (simp add: setup_apertures_def calls_simps Let_def split: prod.splits)

lemma make_masters_quiet:
  "phot_calls (fst (make_masters J nc ic b w im)) = []"
  "correct_calls (fst (make_masters J nc ic b w im)) = []"
  "measure_calls (fst (make_masters J nc ic b w im)) = []"
  "aperture_calls (fst (make_masters J nc ic b w im)) = []"
  "fs_calls (fst (make_masters J nc ic b w im)) = []"
  by (simp_all add: make_masters_def calls_simps Let_def split: prod.splits)

lemma make_masters_flat:
  "flat_calls (fst (make_masters J nc ic b w (get_image_list J))) =
     [flat_args nc ic (get_image_list J) (fst (built_dark J nc ic)) (snd (built_dark J nc ic))]"
  by (simp add: make_masters_def calls_simps built_dark_def Let_def split: prod.splits)

lemma startup_quiet:
  "phot_calls (fst (startup J nc ic)) = []"
  "correct_calls (fst (startup J nc ic)) = []"
  "measure_calls (fst (startup J nc ic)) = []"
  "fs_calls (fst (startup J nc ic)) = []"
  by (simp_all add: startup_events calls_simps setup_ds9_quiet setup_apertures_quiet
      make_masters_quiet)

lemma startup_aperture:
  "aperture_calls (fst (startup J nc ic)) = fst (setup_apertures J nc ic)"
  by (simp add: startup_events calls_simps setup_ds9_quiet setup_apertures_all make_masters_quiet)

lemma startup_flat:
  "flat_calls (fst (startup J nc ic)) =
     [flat_args nc ic (get_image_list J) (fst (built_dark J nc ic)) (snd (built_dark J nc ic))]"
  by (simp add: startup_events calls_simps setup_ds9_quiet setup_apertures_quiet
      make_masters_flat)

lemma setup_apertures_eq:
  assumes "read_region_file J (nc_region_file nc) = (x, y, rsi, rso)"
    and "source_extract J (nc_reference_image nc) (ic_background_sigma ic) rsi rso =
           (source_x, source_y)"
    and "recenter_stars J x y source_x source_y (nc_max_sep_shift nc) = (x', y')"
  shows "setup_apertures J nc ic =
     (if nc_defocused nc then ([Read_region_file (nc_region_file nc)], x, y, rsi, rso)
      else ([Read_region_file (nc_region_file nc),
             Source_extract (nc_reference_image nc) (ic_background_sigma ic) rsi rso,
             Recenter_stars x y source_x source_y (nc_max_sep_shift nc)],
            x', y', rsi, rso))"
  using assms by (simp add: setup_apertures_def Let_def)

subsection \<open>The calls of one frame\<close>

lemma process_frame_phot:
  "phot_calls (fst (process_frame J nc ic V fd f)) =
     (if gate_rejects nc (measure_shift J (v_d V) f) then []
      else [phot_args nc ic V f (correct_data_osc J (correct_args nc ic V f))
              (measure_shift J (v_d V) f)])"
  by (simp add: process_frame_def phot_calls_def gate_rejects_def Let_def)

lemma process_frame_correct:
  "correct_calls (fst (process_frame J nc ic V fd f)) = [correct_args nc ic V f]"
  by (simp add: process_frame_def correct_calls_def Let_def)

lemma process_frame_measure:
  "measure_calls (fst (process_frame J nc ic V fd f)) = [f]"
  by (simp add: process_frame_def measure_calls_def Let_def)

lemma process_frame_aperture:
  "aperture_calls (fst (process_frame J nc ic V fd f)) = []"
  by (auto simp: process_frame_def aperture_calls_def Let_def)



subsection \<open>The calls of the loop\<close>

lemma process_frames_Cons:
  "fst (process_frames J nc ic V fd (f # fs)) =
     fst (process_frame J nc ic V fd f) @
     fst (process_frames J nc ic V (snd (process_frame J nc ic V fd f)) fs)"
  by (simp add: split_beta Let_def)

lemma process_frames_project:
  assumes "\<And>fd f. concat (map g (fst (process_frame J nc ic V fd f))) = h f"
  shows "concat (map g (fst (process_frames J nc ic V fd fs))) = concat (map h fs)"
proof (induction fs arbitrary: fd)
  case Nil
  show ?case by simp
next
  case (Cons f fs)
  show ?case
    unfolding process_frames_Cons by (simp add: assms Cons.IH)
qed

lemma process_frames_phot:
  "phot_calls (fst (process_frames J nc ic V fd fs)) =
     map (\<lambda>f. phot_args nc ic V f (correct_data_osc J (correct_args nc ic V f))
                (measure_shift J (v_d V) f))
       (filter (\<lambda>f. \<not> gate_rejects nc (measure_shift J (v_d V) f)) fs)"
proof -
  have "phot_calls (fst (process_frames J nc ic V fd fs)) =
     concat (map (\<lambda>f. if gate_rejects nc (measure_shift J (v_d V) f) then []
      else [phot_args nc ic V f (correct_data_osc J (correct_args nc ic V f))
              (measure_shift J (v_d V) f)]) fs)"
    unfolding phot_calls_def
    by (rule process_frames_project) (rule process_frame_phot [unfolded phot_calls_def])
  also have "\<dots> = map (\<lambda>f. phot_args nc ic V f (correct_data_osc J (correct_args nc ic V f))
                (measure_shift J (v_d V) f))
       (filter (\<lambda>f. \<not> gate_rejects nc (measure_shift J (v_d V) f)) fs)"
    by (induction fs) simp_all
  finally show ?thesis .
qed

lemma process_frames_correct:
  "correct_calls (fst (process_frames J nc ic V fd fs)) = map (correct_args nc ic V) fs"
proof -
  have "correct_calls (fst (process_frames J nc ic V fd fs)) =
      concat (map (\<lambda>f. [correct_args nc ic V f]) fs)"
    unfolding correct_calls_def
    by (rule process_frames_project) (rule process_frame_correct [unfolded correct_calls_def])
  then show ?thesis by simp
qed

lemma process_frames_measure:
  "measure_calls (fst (process_frames J nc ic V fd fs)) = fs"
proof -
  have "measure_calls (fst (process_frames J nc ic V fd fs)) = concat (map (\<lambda>f. [f]) fs)"
    unfolding measure_calls_def
    by (rule process_frames_project) (rule process_frame_measure [unfolded measure_calls_def])
  then show ?thesis by simp
qed

lemma process_frames_aperture:
  "aperture_calls (fst (process_frames J nc ic V fd fs)) = []"
proof -
  have "aperture_calls (fst (process_frames J nc ic V fd fs)) = concat (map (\<lambda>f. []) fs)"
    unfolding aperture_calls_def
    by (rule process_frames_project) (rule process_frame_aperture [unfolded aperture_calls_def])
  then show ?thesis by simp
qed



lemma process_frames_flat: "flat_calls (fst (process_frames J nc ic V fd fs)) = []"
proof -
  have one: "concat (map flat_of (fst (process_frame J nc ic V fd f))) = []" for fd f
    by (auto simp: process_frame_def Let_def)
  have "flat_calls (fst (process_frames J nc ic V fd fs)) = concat (map (\<lambda>f. []) fs)"
    unfolding flat_calls_def by (rule process_frames_project) (rule one)
  then show ?thesis by simp
qed

subsection \<open>The calls of the whole run\<close>

lemma main_phot:
  "phot_calls (main J nc ic fd) =
     map (\<lambda>f. phot_args nc ic (snd (startup J nc ic)) f
                (correct_data_osc J (correct_args nc ic (snd (startup J nc ic)) f))
                (measure_shift J (nc_reference_image nc) f))
       (accepted_files J nc ic)"
  by (simp add: main_eq calls_simps startup_quiet process_frames_phot startup_d
      accepted_files_def)

lemma main_correct:
  "correct_calls (main J nc ic fd) =
     map (correct_args nc ic (snd (startup J nc ic))) (science_files J nc ic)"
  by (simp add: main_eq calls_simps startup_quiet process_frames_correct)

lemma main_measure: "measure_calls (main J nc ic fd) = science_files J nc ic"
  by (simp add: main_eq calls_simps startup_quiet process_frames_measure)

lemma main_aperture: "aperture_calls (main J nc ic fd) = fst (setup_apertures J nc ic)"
  by (simp add: main_eq calls_simps startup_aperture process_frames_aperture)

lemma main_flat:
  "flat_calls (main J nc ic fd) =
     [flat_args nc ic (get_image_list J) (fst (built_dark J nc ic)) (snd (built_dark J nc ic))]"
  by (simp add: main_eq calls_simps startup_flat process_frames_flat)



subsection \<open>The concrete night\<close>

lemma demo_files: "science_files demo_jastro demo_night demo_inst = [''a'', ''b'', ''c'']"
  by (simp add: science_files_def demo_jastro_def)

lemma demo_accepted: "accepted_files demo_jastro demo_night demo_inst = [''b'', ''c'']"
  by (simp add: accepted_files_def demo_files) (simp add: demo_eval)




subsection \<open>File names and masters in the calls to the correction\<close>

lemma correct_args_filename: "cr_filename (correct_args nc ic V f) = f"
  by (simp add: correct_args_def)

lemma main_correct_files:
  "map cr_filename (correct_calls (main J nc ic fd)) = science_files J nc ic"
  by (simp add: main_correct comp_def correct_args_filename)

lemma startup_masters:
  "v_master_dark (snd (startup J nc ic)) = fst (built_dark J nc ic)"
  "v_dark_exp (snd (startup J nc ic)) = snd (built_dark J nc ic)"
  "v_master_flat (snd (startup J nc ic)) = built_flat J nc ic"
  by (simp_all add: startup_vars)

lemma correct_args_masters:
  "cr_master_dark (correct_args nc ic V f) = v_master_dark V"
  "cr_dark_exp (correct_args nc ic V f) = v_dark_exp V"
  "cr_master_flat (correct_args nc ic V f) = v_master_flat V"
  by (simp_all add: correct_args_def)

lemma main_correct_masters:
  assumes "c \<in> set (correct_calls (main J nc ic fd))"
  shows "cr_master_dark c = fst (built_dark J nc ic) \<and>
     cr_dark_exp c = snd (built_dark J nc ic) \<and>
     cr_master_flat c = built_flat J nc ic"
proof -
  from assms obtain f where "c = correct_args nc ic (snd (startup J nc ic)) f"
    unfolding main_correct by auto
  then show ?thesis
    by (simp add: correct_args_masters startup_masters)
qed

subsection \<open>Counting the calls that set the apertures\<close>

lemma setup_apertures_counts:
  "length (filter is_read_region (fst (setup_apertures J nc ic))) = 1"
  "length (filter is_recenter (fst (setup_apertures J nc ic))) = (if nc_defocused nc then 0 else 1)"
  by (simp_all add: setup_apertures_def Let_def split: prod.splits)

lemma filter_aperture_calls:
  "filter is_read_region tr = filter is_read_region (aperture_calls tr)"
  "filter is_recenter tr = filter is_recenter (aperture_calls tr)"
proof (induction tr)
  case Nil
  show "filter is_read_region [] = filter is_read_region (aperture_calls [])"
    and "filter is_recenter [] = filter is_recenter (aperture_calls [])"
    by (simp_all add: calls_simps)
next
  case (Cons e tr)
  show "filter is_read_region (e # tr) = filter is_read_region (aperture_calls (e # tr))"
    using Cons.IH(1) by (cases e) (simp_all add: calls_simps)
  show "filter is_recenter (e # tr) = filter is_recenter (aperture_calls (e # tr))"
    using Cons.IH(2) by (cases e) (simp_all add: calls_simps)
qed

subsection \<open>Leaving the display out\<close>

lemma ds9_irrelevant:
  "setup_apertures J (nc\<lparr>nc_ds9 := b\<rparr>) ic = setup_apertures J nc ic"
  "built_dark J (nc\<lparr>nc_ds9 := b\<rparr>) ic = built_dark J nc ic"
  "built_flat J (nc\<lparr>nc_ds9 := b\<rparr>) ic = built_flat J nc ic"
  "science_files J (nc\<lparr>nc_ds9 := b\<rparr>) ic = science_files J nc ic"
  "gate_rejects (nc\<lparr>nc_ds9 := b\<rparr>) s = gate_rejects nc s"
  by (simp_all add: setup_apertures_def built_dark_def built_flat_def dark_args_def
      flat_args_def science_files_def gate_rejects_def shifts_too_big_def Let_def
      split: prod.splits)

lemma startup_vars_off:
  "snd (startup J (nc\<lparr>nc_ds9 := False\<rparr>) ic) = display_off (snd (startup J nc ic))"
  by (simp add: startup_vars ds9_irrelevant display_off_def)

lemma setup_apertures_shown:
  "without_display (fst (setup_apertures J nc ic)) = fst (setup_apertures J nc ic)"
  by (simp add: setup_apertures_def calls_simps Let_def split: prod.splits)

lemma make_masters_hidden:
  "without_display (fst (make_masters J nc ic b w im)) =
     fst (make_masters J (nc\<lparr>nc_ds9 := False\<rparr>) ic False None im)"
  by (simp add: make_masters_def calls_simps dark_args_def flat_args_def Let_def
      split: prod.splits)

lemma startup_hidden:
  "without_display (fst (startup J nc ic)) = fst (startup J (nc\<lparr>nc_ds9 := False\<rparr>) ic)"
  by (simp add: startup_events calls_simps setup_ds9_def setup_apertures_shown
      make_masters_hidden ds9_irrelevant)

lemma process_frame_hidden:
  "without_display (fst (process_frame J nc ic V fd f)) =
     fst (process_frame J (nc\<lparr>nc_ds9 := False\<rparr>) ic (display_off V) fd f)"
  "snd (process_frame J nc ic V fd f) =
     snd (process_frame J (nc\<lparr>nc_ds9 := False\<rparr>) ic (display_off V) fd f)"
  by (simp_all add: process_frame_def calls_simps display_off_def correct_args_def
      phot_args_def shifts_too_big_def Let_def split_beta)

lemma process_frames_hidden:
  "without_display (fst (process_frames J nc ic V fd fs)) =
     fst (process_frames J (nc\<lparr>nc_ds9 := False\<rparr>) ic (display_off V) fd fs)"
proof (induction fs arbitrary: fd)
  case Nil
  show ?case by (simp add: calls_simps)
next
  case (Cons f fs)
  show ?case
    unfolding process_frames_Cons
    by (simp add: calls_simps Cons.IH process_frame_hidden [symmetric])
qed

lemma main_hidden:
  "without_display (main J nc ic fd) = main J (nc\<lparr>nc_ds9 := False\<rparr>) ic fd"
  by (simp add: main_eq calls_simps startup_hidden process_frames_hidden startup_vars_off
      ds9_irrelevant)


lemma phot_outcome_off:
  "phot_outcome (phot_args (nc\<lparr>nc_ds9 := False\<rparr>) ic (display_off V) f c s) =
     phot_outcome (phot_args nc ic V f c s)"
  by (simp add: phot_outcome_def phot_args_def phot_apertures_def display_off_def split_beta)

lemma correct_args_off:
  "correct_args (nc\<lparr>nc_ds9 := False\<rparr>) ic (display_off V) f = correct_args nc ic V f"
  by (simp add: correct_args_def display_off_def)

lemma accepted_files_ds9:
  "accepted_files J (nc\<lparr>nc_ds9 := b\<rparr>) ic = accepted_files J nc ic"
  by (simp add: accepted_files_def ds9_irrelevant)

lemma main_phot_outcome_off:
  "map phot_outcome (phot_calls (main J (nc\<lparr>nc_ds9 := False\<rparr>) ic fd)) =
     map phot_outcome (phot_calls (main J nc ic fd))"
  by (simp add: main_phot startup_vars_off accepted_files_ds9 comp_def phot_outcome_off
      correct_args_off)

subsection \<open>Rounding a component that is close to the tolerance\<close>


section \<open>The claims\<close>

subsection \<open>C1: what the quality gate tests\<close>




subsection \<open>C2: photometry runs for the accepted frames only\<close>

text \<open>
  Claim C2: a frame the gate rejects makes no call to \<open>phot\<close>, and a frame it accepts
  makes exactly one, for that frame's file. Over the whole run the calls to \<open>phot\<close> are
  those of the accepted frames, in the order of the image list, and a rejection does not
  end the loop: the shift of every frame of the list is measured.
\<close>

theorem photometry_iff_accepted:
  "(gate_rejects nc (measure_shift J (v_d V) f) \<longrightarrow>
      phot_calls (fst (process_frame J nc ic V fd' f)) = []) \<and>
   (\<not> gate_rejects nc (measure_shift J (v_d V) f) \<longrightarrow>
      map ph_filename (phot_calls (fst (process_frame J nc ic V fd' f))) = [f]) \<and>
   map ph_filename (phot_calls (main J nc ic fd)) = accepted_files J nc ic \<and>
   measure_calls (main J nc ic fd) = science_files J nc ic"
  by (simp add: process_frame_phot main_phot main_measure phot_args_def split_beta comp_def)

text \<open>On the concrete night frame \<open>a\<close> is rejected and frames \<open>b\<close> and \<open>c\<close> reach photometry.\<close>

theorem photometry_iff_accepted_witness:
  "gate_rejects demo_night (measure_shift demo_jastro ''ref.fits'' ''a'') \<and>
   phot_calls (fst (process_frame demo_jastro demo_night demo_inst
      (snd (startup demo_jastro demo_night demo_inst)) False ''a'')) = [] \<and>
   \<not> gate_rejects demo_night (measure_shift demo_jastro ''ref.fits'' ''b'') \<and>
   map ph_filename (phot_calls (fst (process_frame demo_jastro demo_night demo_inst
      (snd (startup demo_jastro demo_night demo_inst)) False ''b''))) = [''b''] \<and>
   map ph_filename (phot_calls (main demo_jastro demo_night demo_inst False)) = [''b'', ''c'']"
proof -
  have d: "v_d (snd (startup demo_jastro demo_night demo_inst)) = ''ref.fits''"
    by (simp add: startup_d demo_night_def)
  have a: "gate_rejects demo_night (measure_shift demo_jastro ''ref.fits'' ''a'')"
    by (simp add: demo_eval)
  have b: "\<not> gate_rejects demo_night (measure_shift demo_jastro ''ref.fits'' ''b'')"
    by (simp add: demo_eval)
  show ?thesis
    using a b
      photometry_iff_accepted [of demo_night demo_jastro
        "snd (startup demo_jastro demo_night demo_inst)" "''a''" demo_inst False False]
      photometry_iff_accepted [of demo_night demo_jastro
        "snd (startup demo_jastro demo_night demo_inst)" "''b''" demo_inst False False]
    by (simp add: d demo_accepted)
qed

subsection \<open>C3: recentring is skipped on a defocused night\<close>

text \<open>
  Claim C3: with \<open>defocused\<close> set, the only call that touches the apertures is the reading
  of the region file, and the loop starts with the positions and radii it returned. With
  \<open>defocused\<close> unset, the sources are extracted from the reference image, and the
  positions become those \<open>recenter_stars\<close> returns, the sky radii staying as loaded. The
  script passes on what \<open>recenter_stars\<close> returns as it is, so the positions have the
  length of the loaded ones whenever that routine keeps the length of its input.
\<close>

theorem recentering_only_when_focused:
  assumes "read_region_file J (nc_region_file nc) = (x, y, rsi, rso)"
    and "source_extract J (nc_reference_image nc) (ic_background_sigma ic) rsi rso =
           (source_x, source_y)"
    and "recenter_stars J x y source_x source_y (nc_max_sep_shift nc) = (x', y')"
  shows
    "(nc_defocused nc \<longrightarrow>
        apertures (snd (startup J nc ic)) = (x, y, rsi, rso) \<and>
        aperture_calls (main J nc ic fd) = [Read_region_file (nc_region_file nc)]) \<and>
     (\<not> nc_defocused nc \<longrightarrow>
        apertures (snd (startup J nc ic)) = (x', y', rsi, rso) \<and>
        aperture_calls (main J nc ic fd) =
          [Read_region_file (nc_region_file nc),
           Source_extract (nc_reference_image nc) (ic_background_sigma ic) rsi rso,
           Recenter_stars x y source_x source_y (nc_max_sep_shift nc)]) \<and>
     (length x' = length x \<and> length y' = length y \<longrightarrow>
        length (v_x (snd (startup J nc ic))) = length x \<and>
        length (v_y (snd (startup J nc ic))) = length y)"
  by (simp add: main_aperture apertures_def startup_vars setup_apertures_eq [OF assms])

text \<open>The concrete night, defocused and then with \<open>defocused\<close> unset.\<close>

theorem recentering_only_when_focused_witness:
  "nc_defocused demo_night \<and>
   apertures (snd (startup demo_jastro demo_night demo_inst)) =
     ([100, 200], [100, 200], [5, 5], [10, 10]) \<and>
   aperture_calls (main demo_jastro demo_night demo_inst False) = [Read_region_file ''ref.reg''] \<and>
   \<not> nc_defocused (demo_night\<lparr>nc_defocused := False\<rparr>) \<and>
   apertures (snd (startup demo_jastro (demo_night\<lparr>nc_defocused := False\<rparr>) demo_inst)) =
     ([101, 199], [99, 201], [5, 5], [10, 10]) \<and>
   aperture_calls (main demo_jastro (demo_night\<lparr>nc_defocused := False\<rparr>) demo_inst False) =
     [Read_region_file ''ref.reg'',
      Source_extract ''ref.fits'' 3 [5, 5] [10, 10],
      Recenter_stars [100, 200] [100, 200] [101, 199] [99, 201] 3] \<and>
   length (v_x (snd (startup demo_jastro (demo_night\<lparr>nc_defocused := False\<rparr>) demo_inst))) = 2"
proof -
  have r: "read_region_file demo_jastro (nc_region_file n) =
      ([100, 200], [100, 200], [5, 5], [10, 10])" for n :: night_config
    by (simp add: demo_jastro_def)
  have s: "source_extract demo_jastro (nc_reference_image n) (ic_background_sigma demo_inst)
      [5, 5] [10, 10] = ([101, 199], [99, 201])" for n :: night_config
    by (simp add: demo_jastro_def)
  have c: "recenter_stars demo_jastro [100, 200] [100, 200] [101, 199] [99, 201]
      (nc_max_sep_shift n) = ([101, 199], [99, 201])" for n :: night_config
    by (simp add: demo_jastro_def)
  show ?thesis
    using recentering_only_when_focused [OF r s c, of demo_night False]
      recentering_only_when_focused [OF r s c, of "demo_night\<lparr>nc_defocused := False\<rparr>" False]
    by (simp add: demo_night_def demo_inst_def)
qed

subsection \<open>C4: the shift is measured on the selected file\<close>

text \<open>
  Claim C4: \<open>measure_shift\<close> is called once per frame of the image list, in order, each
  time with the file name the loop selected, which is also the file name the correction
  received. It takes a file name; the pixel data the correction returns goes to \<open>phot\<close>
  only. The shift a call to \<open>phot\<close> receives is the one measured on the file of that
  call, and its data is what the correction returned for that file.
\<close>

theorem shift_measured_on_selected_file:
  "measure_calls (main J nc ic fd) = science_files J nc ic \<and>
   map cr_filename (correct_calls (main J nc ic fd)) = science_files J nc ic \<and>
   (\<forall>p \<in> set (phot_calls (main J nc ic fd)).
      ph_shift p = measure_shift J (nc_reference_image nc) (ph_filename p) \<and>
      ph_data p =
        fst (correct_data_osc J (correct_args nc ic (snd (startup J nc ic)) (ph_filename p))))"
  by (auto simp: main_measure main_correct_files main_phot phot_args_def split_beta)

text \<open>On the concrete night the three files are measured, and the two calls to \<open>phot\<close> get
  the shifts measured on \<open>b\<close> and \<open>c\<close>.\<close>

theorem shift_measured_on_selected_file_witness:
  "measure_calls (main demo_jastro demo_night demo_inst False) = [''a'', ''b'', ''c''] \<and>
   map ph_shift (phot_calls (main demo_jastro demo_night demo_inst False)) =
     [\<lparr>sh_x = 5 / 10, sh_y = 9 / 10\<rparr>, \<lparr>sh_x = 1004 / 1000, sh_y = 0\<rparr>]"
  using shift_measured_on_selected_file [of demo_jastro demo_night demo_inst False]
  by (simp add: demo_files main_phot demo_accepted phot_args_def split_beta)
    (simp add: demo_jastro_def demo_shift_def)

subsection \<open>C5: the apertures are fixed before the loop\<close>

text \<open>
  Claim C5: the loop starts with the apertures the set-up produced. The calls of the
  run that set apertures are those of the set-up: the region file is read exactly once
  and \<open>recenter_stars\<close> is called at most once. The loop makes no such call, whatever the
  frames, and every call to \<open>phot\<close> of the run receives the apertures the loop started
  with, together with the shift measured on the file of that call.
\<close>

theorem apertures_fixed_before_loop:
  "apertures (snd (startup J nc ic)) = snd (setup_apertures J nc ic) \<and>
   aperture_calls (main J nc ic fd) = fst (setup_apertures J nc ic) \<and>
   length (filter is_read_region (main J nc ic fd)) = 1 \<and>
   length (filter is_recenter (main J nc ic fd)) \<le> 1 \<and>
   aperture_calls (fst (process_frames J nc ic V fd' fs)) = [] \<and>
   (\<forall>p \<in> set (phot_calls (main J nc ic fd)).
      phot_apertures p = apertures (snd (startup J nc ic)) \<and>
      ph_shift p = measure_shift J (nc_reference_image nc) (ph_filename p))"
proof -
  have "length (filter is_read_region (main J nc ic fd)) = 1"
    by (simp add: filter_aperture_calls(1) [of "main J nc ic fd"] main_aperture
        setup_apertures_counts)
  moreover have "length (filter is_recenter (main J nc ic fd)) \<le> 1"
    by (simp add: filter_aperture_calls(2) [of "main J nc ic fd"] main_aperture
        setup_apertures_counts)
  moreover have "apertures (snd (startup J nc ic)) = snd (setup_apertures J nc ic)"
    by (simp add: apertures_def startup_vars)
  moreover have "\<forall>p \<in> set (phot_calls (main J nc ic fd)).
      phot_apertures p = apertures (snd (startup J nc ic)) \<and>
      ph_shift p = measure_shift J (nc_reference_image nc) (ph_filename p)"
    by (auto simp: main_phot phot_args_def phot_apertures_def apertures_def split_beta)
  ultimately show ?thesis
    by (simp add: main_aperture process_frames_aperture)
qed

text \<open>On the concrete night both calls to \<open>phot\<close> get the apertures of the region file.\<close>

theorem apertures_fixed_before_loop_witness:
  "map phot_apertures (phot_calls (main demo_jastro demo_night demo_inst False)) =
     [([100, 200], [100, 200], [5, 5], [10, 10]), ([100, 200], [100, 200], [5, 5], [10, 10])] \<and>
   length (filter is_read_region (main demo_jastro demo_night demo_inst False)) = 1"
proof -
  have "apertures (snd (startup demo_jastro demo_night demo_inst)) =
      ([100, 200], [100, 200], [5, 5], [10, 10])"
    by (simp add: apertures_def startup_vars setup_apertures_def Let_def demo_night_def
        demo_jastro_def)
  moreover have "length (phot_calls (main demo_jastro demo_night demo_inst False)) = 2"
    by (simp add: main_phot demo_accepted)
  ultimately show ?thesis
    using apertures_fixed_before_loop [of demo_jastro demo_night demo_inst False]
    by (auto simp: length_Suc_conv numeral_2_eq_2)
qed

subsection \<open>C6: an absent master is passed on\<close>

text \<open>
  Claim C6: whatever \<open>make_master_dark_osc\<close> returns, absent or not, is the master dark
  and dark exposure given to \<open>make_master_flat_osc\<close> and to every call of
  \<open>correct_data_osc\<close>, and whatever \<open>make_master_flat_osc\<close> returns is the master flat
  given to every such call. In particular an absent master dark reaches the flat
  construction and every correction as \<open>None\<close>, and an absent master flat reaches every
  correction as \<open>None\<close>. The script has no statement that raises or exits, and its only
  test of a master (\<open>is not None\<close>) guards the display: the run still makes one correction
  call for every frame of the list.
\<close>

theorem absent_master_passed_through:
  "flat_calls (main J nc ic fd) =
     [flat_args nc ic (get_image_list J) (fst (built_dark J nc ic)) (snd (built_dark J nc ic))] \<and>
   map cr_filename (correct_calls (main J nc ic fd)) = science_files J nc ic \<and>
   (\<forall>c \<in> set (correct_calls (main J nc ic fd)).
      cr_master_dark c = fst (built_dark J nc ic) \<and>
      cr_dark_exp c = snd (built_dark J nc ic) \<and>
      cr_master_flat c = built_flat J nc ic) \<and>
   (fst (built_dark J nc ic) = None \<longrightarrow>
      (\<forall>c \<in> set (flat_calls (main J nc ic fd)). fl_master_dark c = None) \<and>
      (\<forall>c \<in> set (correct_calls (main J nc ic fd)). cr_master_dark c = None)) \<and>
   (built_flat J nc ic = None \<longrightarrow>
      (\<forall>c \<in> set (correct_calls (main J nc ic fd)). cr_master_flat c = None))"
  using main_correct_masters [of _ J nc ic fd]
  by (simp add: main_flat main_correct_files flat_args_def)

text \<open>On the concrete night both masters are absent and the three frames are corrected.\<close>

theorem absent_master_passed_through_witness:
  "fst (built_dark demo_jastro demo_night demo_inst) = None \<and>
   built_flat demo_jastro demo_night demo_inst = None \<and>
   map fl_master_dark (flat_calls (main demo_jastro demo_night demo_inst False)) = [None] \<and>
   map cr_master_dark (correct_calls (main demo_jastro demo_night demo_inst False)) =
     [None, None, None] \<and>
   map cr_master_flat (correct_calls (main demo_jastro demo_night demo_inst False)) =
     [None, None, None] \<and>
   map cr_filename (correct_calls (main demo_jastro demo_night demo_inst False)) =
     [''a'', ''b'', ''c'']"
proof -
  have d: "fst (built_dark demo_jastro demo_night demo_inst) = None"
    by (simp add: built_dark_def demo_jastro_def)
  have f: "built_flat demo_jastro demo_night demo_inst = None"
    by (simp add: built_flat_def demo_jastro_def)
  have n: "length (correct_calls (main demo_jastro demo_night demo_inst False)) = 3"
    by (simp add: main_correct demo_files)
  show ?thesis
    using d f n absent_master_passed_through [of demo_jastro demo_night demo_inst False]
    by (auto simp: length_Suc_conv numeral_3_eq_3 demo_files)
qed

subsection \<open>C7: the gain\<close>

text \<open>
  Claim C7: the arguments of a call to \<open>phot\<close> have the gain 0.4 whatever the
  configurations, the variables, the file, the corrected data and the shift are, and so
  has every call to \<open>phot\<close> of every run.
\<close>

theorem gain_is_constant:
  "ph_gain (phot_args nc ic V f corrected s) = 4 / 10 \<and>
   (\<forall>p \<in> set (phot_calls (main J nc ic fd)). ph_gain p = 4 / 10)"
  by (auto simp: main_phot phot_args_def split_beta)

text \<open>The two calls to \<open>phot\<close> of the concrete night.\<close>

theorem gain_is_constant_witness:
  "ph_gain (phot_args demo_night demo_inst (snd (startup demo_jastro demo_night demo_inst))
      ''b'' (''b'', 1, 2, 3) (demo_shift ''b'')) = 4 / 10 \<and>
   map ph_gain (phot_calls (main demo_jastro demo_night demo_inst False)) = [4 / 10, 4 / 10]"
proof -
  have "length (phot_calls (main demo_jastro demo_night demo_inst False)) = 2"
    by (simp add: main_phot demo_accepted)
  then show ?thesis
    using gain_is_constant [of demo_night demo_inst
        "snd (startup demo_jastro demo_night demo_inst)" "''b''" "(''b'', 1, 2, 3)"
        "demo_shift ''b''" demo_jastro False]
    by (auto simp: length_Suc_conv numeral_2_eq_2)
qed

subsection \<open>C8: the quarantine directory\<close>



subsection \<open>C9: the display does not change the outcome\<close>

text \<open>
  Claim C9: two runs that differ only in the \<open>ds9\<close> key make the same calls once the
  display is left out, and leaving the display out of the run whose display is off
  changes nothing. Both runs start the loop with the same apertures, accept the same
  frames and reject the same frames, and their calls to \<open>phot\<close> have the same data, shift,
  apertures and time stamps.
\<close>

theorem display_does_not_change_outcome:
  "without_display (main J (nc\<lparr>nc_ds9 := True\<rparr>) ic fd) =
     without_display (main J (nc\<lparr>nc_ds9 := False\<rparr>) ic fd) \<and>
   without_display (main J (nc\<lparr>nc_ds9 := False\<rparr>) ic fd) = main J (nc\<lparr>nc_ds9 := False\<rparr>) ic fd \<and>
   apertures (snd (startup J (nc\<lparr>nc_ds9 := True\<rparr>) ic)) =
     apertures (snd (startup J (nc\<lparr>nc_ds9 := False\<rparr>) ic)) \<and>
   accepted_files J (nc\<lparr>nc_ds9 := True\<rparr>) ic = accepted_files J (nc\<lparr>nc_ds9 := False\<rparr>) ic \<and>
   rejected_files J (nc\<lparr>nc_ds9 := True\<rparr>) ic = rejected_files J (nc\<lparr>nc_ds9 := False\<rparr>) ic \<and>
   map phot_outcome (phot_calls (main J (nc\<lparr>nc_ds9 := True\<rparr>) ic fd)) =
     map phot_outcome (phot_calls (main J (nc\<lparr>nc_ds9 := False\<rparr>) ic fd))"
proof -
  have "without_display (main J (nc\<lparr>nc_ds9 := b\<rparr>) ic fd) = main J (nc\<lparr>nc_ds9 := False\<rparr>) ic fd"
    for b
    using main_hidden [of J "nc\<lparr>nc_ds9 := b\<rparr>" ic fd] by simp
  moreover have "apertures (snd (startup J (nc\<lparr>nc_ds9 := b\<rparr>) ic)) =
      apertures (snd (startup J nc ic))" for b
    by (simp add: apertures_def startup_vars ds9_irrelevant)
  moreover have "map phot_outcome (phot_calls (main J (nc\<lparr>nc_ds9 := True\<rparr>) ic fd)) =
     map phot_outcome (phot_calls (main J (nc\<lparr>nc_ds9 := False\<rparr>) ic fd))"
    using main_phot_outcome_off [of J "nc\<lparr>nc_ds9 := True\<rparr>" ic fd] by simp
  ultimately show ?thesis
    by (simp add: accepted_files_ds9 rejected_files_def ds9_irrelevant)
qed

text \<open>The concrete night has the display on: its run shows frame \<open>a\<close>, and without the
  display it is the run of the same night with the display off.\<close>

theorem display_does_not_change_outcome_witness:
  "without_display (main demo_jastro demo_night demo_inst False) =
     main demo_jastro (demo_night\<lparr>nc_ds9 := False\<rparr>) demo_inst False \<and>
   Ds9_display (Some ''w'') ''a'' \<in> set (main demo_jastro demo_night demo_inst False)"
proof -
  have on: "demo_night\<lparr>nc_ds9 := True\<rparr> = demo_night"
    by (simp add: demo_night_def)
  have "Ds9_display (Some ''w'') ''a'' \<in> set (fst (process_frames demo_jastro demo_night demo_inst
      (snd (startup demo_jastro demo_night demo_inst)) False
      (science_files demo_jastro demo_night demo_inst)))"
    unfolding demo_files process_frames_Cons
    by (simp add: process_frame_def startup_vars demo_night_def demo_inst_def Let_def)
  then have "Ds9_display (Some ''w'') ''a'' \<in> set (main demo_jastro demo_night demo_inst False)"
    unfolding main_eq by simp
  then show ?thesis
    using display_does_not_change_outcome [of demo_jastro demo_night demo_inst False]
    by (simp add: on)
qed

subsection \<open>C10: the gate reads the rounded shift, photometry the measured one\<close>





end
